theory Spec2Isabelle
  imports Main "HOL-Library.Sublist"
begin

section \<open>JavaScript values used by the dashboard\<close>

text \<open>
  A thrown value is either an \<open>Error\<close> instance carrying its message or some other
  value (\<open>error instanceof Error\<close> is false for it). A computation either returns or
  throws; an awaited promise that rejects is a throw at the \<open>await\<close>.
\<close>

datatype thrown = Error string | NonError

datatype 'a js_result = Returned 'a | Threw thrown

text \<open>Truthiness of a \<open>string | null | undefined\<close>: absent and the empty string are falsy.\<close>

fun truthy :: "string option \<Rightarrow> bool" where
  "truthy None = False"
| "truthy (Some s) = (s \<noteq> [])"

text \<open>
  \<open>Number.prototype.toString\<close> on an integer: decimal digits, a leading minus sign for a
  negative one. (Integers of magnitude below \<open>10^21\<close>; beyond that JavaScript switches to
  exponent notation.)
\<close>

definition digit_char :: "nat \<Rightarrow> char" where
  "digit_char d = ''0123456789'' ! (d mod 10)"

function nat_toString :: "nat \<Rightarrow> string" where
  "nat_toString n =
     (if n < 10 then [digit_char n] else nat_toString (n div 10) @ [digit_char (n mod 10)])"
  by pat_completeness auto
termination
  by (relation "measure (\<lambda>n. n)") auto

declare nat_toString.simps [simp del]

definition Number_toString :: "int \<Rightarrow> string" where
  "Number_toString i =
     (if i < 0 then CHR ''-'' # nat_toString (nat (- i)) else nat_toString (nat i))"

section \<open>lib/api.ts: token management\<close>

text \<open>
  The module variable \<open>authToken\<close> and the browser, when there is one
  (\<open>typeof window !== 'undefined'\<close>): its \<open>localStorage\<close> and \<open>window.location.href\<close>.
\<close>

record browser =
  localStorage :: "string \<rightharpoonup> string"
  location_href :: string

record world =
  authToken :: "string option"
  window :: "browser option"

definition setAuthToken :: "string \<Rightarrow> world \<Rightarrow> world" where
  "setAuthToken token w =
     w\<lparr>authToken := Some token,
       window := map_option
         (\<lambda>b. b\<lparr>localStorage := (localStorage b)(''authToken'' \<mapsto> token)\<rparr>) (window w)\<rparr>"

definition getAuthToken :: "world \<Rightarrow> string option \<times> world" where
  "getAuthToken w =
     (case window w of
        Some b \<Rightarrow>
          if \<not> truthy (authToken w)
          then (localStorage b ''authToken'', w\<lparr>authToken := localStorage b ''authToken''\<rparr>)
          else (authToken w, w)
      | None \<Rightarrow> (authToken w, w))"

definition clearAuthToken :: "world \<Rightarrow> world" where
  "clearAuthToken w =
     w\<lparr>authToken := None,
       window := map_option
         (\<lambda>b. b\<lparr>localStorage := (localStorage b)(''authToken'' := None)\<rparr>) (window w)\<rparr>"

section \<open>lib/api.ts: the request function\<close>

record 'a ApiResponse =
  success :: bool
  data :: "'a option"
  message :: "string option"
  error :: "string option"

record RequestInit =
  http_method :: "string option"
  headers :: "(string \<rightharpoonup> string) option"
  body :: "string option"
  cache :: "string option"

text \<open>
  What \<open>fetch\<close> resolves to: the status (\<open>response.status\<close>), and the two body readers the client awaits, each
  of which may reject. \<open>response.ok\<close> is, by the Fetch standard, the status lying in
  200..299.
\<close>

record 'a Response =
  http_status :: nat
  text_body :: "string js_result"
  json_body :: "'a js_result"

definition response_ok :: "'a Response \<Rightarrow> bool" where
  "response_ok r = (200 \<le> http_status r \<and> http_status r \<le> 299)"

type_synonym 'a fetch = "string \<Rightarrow> RequestInit \<Rightarrow> 'a Response js_result"

text \<open>The object handed to \<open>fetch\<close>: \<open>{ headers, ...options, cache: 'no-cache' }\<close>.\<close>

definition request_headers :: "RequestInit \<Rightarrow> string option \<Rightarrow> (string \<rightharpoonup> string)" where
  "request_headers options token =
     (let hs = [''Content-Type'' \<mapsto> ''application/json'']
                 ++ (case headers options of None \<Rightarrow> Map.empty | Some h \<Rightarrow> h)
      in case token of
           None \<Rightarrow> hs
         | Some t \<Rightarrow> if truthy token then hs(''Authorization'' \<mapsto> ''Bearer '' @ t) else hs)"

definition fetch_init :: "RequestInit \<Rightarrow> string option \<Rightarrow> RequestInit" where
  "fetch_init options token =
     options\<lparr>headers := (case headers options of
                           None \<Rightarrow> Some (request_headers options token)
                         | Some h \<Rightarrow> Some h),
             cache := Some ''no-cache''\<rparr>"

definition navigate_login :: "world \<Rightarrow> world" where
  "navigate_login w = w\<lparr>window := map_option (\<lambda>b. b\<lparr>location_href := ''/login''\<rparr>) (window w)\<rparr>"

text \<open>The body of the \<open>try\<close> block of \<open>apiRequest\<close>.\<close>

definition apiRequest_try ::
  "string \<Rightarrow> 'a fetch \<Rightarrow> string \<Rightarrow> RequestInit \<Rightarrow> world \<Rightarrow> 'a ApiResponse js_result \<times> world" where
  "apiRequest_try API_BASE_URL fetch endpoint options w =
     (let (token, w1) = getAuthToken w;
          url = API_BASE_URL @ endpoint
      in case fetch url (fetch_init options token) of
           Threw e \<Rightarrow> (Threw e, w1)
         | Returned response \<Rightarrow>
             if http_status response = 401
             then (Threw (Error ''Authentication failed''), navigate_login (clearAuthToken w1))
             else if \<not> response_ok response
             then (case text_body response of
                     Threw e \<Rightarrow> (Threw e, w1)
                   | Returned errorText \<Rightarrow>
                       (Threw (Error (''HTTP error! status: ''
                                        @ Number_toString (int (http_status response))
                                        @ '' - '' @ errorText)), w1))
             else (case json_body response of
                     Threw e \<Rightarrow> (Threw e, w1)
                   | Returned json \<Rightarrow>
                       (Returned \<lparr>success = True, data = Some json,
                                  message = None, error = None\<rparr>, w1)))"

text \<open>The \<open>catch\<close> clause turns whatever was thrown into a failure result.\<close>

definition apiRequest ::
  "string \<Rightarrow> 'a fetch \<Rightarrow> string \<Rightarrow> RequestInit \<Rightarrow> world \<Rightarrow> 'a ApiResponse js_result \<times> world" where
  "apiRequest API_BASE_URL fetch endpoint options w =
     (case apiRequest_try API_BASE_URL fetch endpoint options w of
        (Threw e, w') \<Rightarrow>
          (Returned \<lparr>success = False, data = None, message = None,
                     error = Some (case e of Error m \<Rightarrow> m
                                   | NonError \<Rightarrow> ''Unknown error occurred'')\<rparr>, w')
      | (Returned r, w') \<Rightarrow> (Returned r, w'))"

section \<open>lib/api.ts: the request builders\<close>

text \<open>
  \<open>URLSearchParams\<close>: an ordered list of name/value pairs. \<open>append\<close> adds at the end;
  \<open>toString\<close> is the \<open>application/x-www-form-urlencoded\<close> serializer of the URL standard:
  pairs joined by \<open>&\<close>, name and value percent-encoded (ASCII alphanumerics and \<open>* - . _\<close>
  kept, a space written \<open>+\<close>, any other byte \<open>%HH\<close>). A string is its UTF-8 bytes.
\<close>

type_synonym URLSearchParams = "(string \<times> string) list"

definition params_append :: "string \<Rightarrow> string \<Rightarrow> URLSearchParams \<Rightarrow> URLSearchParams" where
  "params_append name value params = params @ [(name, value)]"

definition form_safe :: "char \<Rightarrow> bool" where
  "form_safe c =
     (let n = (of_char c :: nat)
      in (48 \<le> n \<and> n \<le> 57) \<or> (65 \<le> n \<and> n \<le> 90) \<or> (97 \<le> n \<and> n \<le> 122)
         \<or> c = CHR ''*'' \<or> c = CHR ''-'' \<or> c = CHR ''.'' \<or> c = CHR ''_'')"

definition hex_char :: "nat \<Rightarrow> char" where
  "hex_char d = ''0123456789ABCDEF'' ! (d mod 16)"

definition form_encode_char :: "char \<Rightarrow> string" where
  "form_encode_char c =
     (if c = CHR '' '' then ''+''
      else if form_safe c then [c]
      else [CHR ''%'', hex_char (of_char c div 16), hex_char (of_char c mod 16)])"

definition form_encode :: "string \<Rightarrow> string" where
  "form_encode s = concat (map form_encode_char s)"

fun params_toString :: "URLSearchParams \<Rightarrow> string" where
  "params_toString [] = []"
| "params_toString [(name, value)] = form_encode name @ ''='' @ form_encode value"
| "params_toString ((name, value) # ps) =
     form_encode name @ ''='' @ form_encode value @ ''&'' @ params_toString ps"

text \<open>A parameter with a default value: the default applies when the argument is omitted.\<close>

fun default_arg :: "'a \<Rightarrow> 'a option \<Rightarrow> 'a" where
  "default_arg d None = d"
| "default_arg d (Some v) = v"

definition no_options :: RequestInit where
  "no_options = \<lparr>http_method = None, headers = None, body = None, cache = None\<rparr>"

text \<open>\<open>bookingsApi.getAll\<close>: the parameters it appends, the endpoint, the call.\<close>

definition bookingsApi_getAll_params ::
  "string option \<Rightarrow> int option \<Rightarrow> int option \<Rightarrow> URLSearchParams" where
  "bookingsApi_getAll_params statusFilter skip_arg limit_arg =
     (let skip = default_arg 0 skip_arg;
          limit = default_arg 50 limit_arg;
          params = [];
          params = (case statusFilter of
                      None \<Rightarrow> params
                    | Some f \<Rightarrow> if truthy statusFilter
                                then params_append ''status_filter'' f params else params);
          params = params_append ''skip'' (Number_toString skip) params;
          params = params_append ''limit'' (Number_toString limit) params
      in params)"

definition bookingsApi_getAll_endpoint :: "string option \<Rightarrow> int option \<Rightarrow> int option \<Rightarrow> string" where
  "bookingsApi_getAll_endpoint statusFilter skip_arg limit_arg =
     ''/admin/bookings?'' @ params_toString (bookingsApi_getAll_params statusFilter skip_arg limit_arg)"

definition bookingsApi_getAll ::
  "string \<Rightarrow> 'a fetch \<Rightarrow> string option \<Rightarrow> int option \<Rightarrow> int option \<Rightarrow> world
     \<Rightarrow> 'a ApiResponse js_result \<times> world" where
  "bookingsApi_getAll API_BASE_URL fetch statusFilter skip_arg limit_arg w =
     apiRequest API_BASE_URL fetch
       (bookingsApi_getAll_endpoint statusFilter skip_arg limit_arg) no_options w"

text \<open>\<open>insuranceRequestsApi.getAll\<close>.\<close>

definition insuranceRequestsApi_getAll_params ::
  "string option \<Rightarrow> int option \<Rightarrow> int option \<Rightarrow> URLSearchParams" where
  "insuranceRequestsApi_getAll_params statusFilter skip_arg limit_arg =
     (let skip = default_arg 0 skip_arg;
          limit = default_arg 50 limit_arg;
          params = [];
          params = (case statusFilter of
                      None \<Rightarrow> params
                    | Some f \<Rightarrow> if truthy statusFilter
                                then params_append ''status_filter'' f params else params);
          params = params_append ''skip'' (Number_toString skip) params;
          params = params_append ''limit'' (Number_toString limit) params
      in params)"

definition insuranceRequestsApi_getAll_endpoint ::
  "string option \<Rightarrow> int option \<Rightarrow> int option \<Rightarrow> string" where
  "insuranceRequestsApi_getAll_endpoint statusFilter skip_arg limit_arg =
     ''/admin/insurance-requests?''
       @ params_toString (insuranceRequestsApi_getAll_params statusFilter skip_arg limit_arg)"

text \<open>\<open>generalRequestsApi.getAll\<close> takes no status filter.\<close>

definition generalRequestsApi_getAll_params :: "int option \<Rightarrow> int option \<Rightarrow> URLSearchParams" where
  "generalRequestsApi_getAll_params skip_arg limit_arg =
     (let skip = default_arg 0 skip_arg;
          limit = default_arg 50 limit_arg;
          params = [];
          params = params_append ''skip'' (Number_toString skip) params;
          params = params_append ''limit'' (Number_toString limit) params
      in params)"

definition generalRequestsApi_getAll_endpoint :: "int option \<Rightarrow> int option \<Rightarrow> string" where
  "generalRequestsApi_getAll_endpoint skip_arg limit_arg =
     ''/admin/car-requests?'' @ params_toString (generalRequestsApi_getAll_params skip_arg limit_arg)"

section \<open>Rows held by the tables\<close>

text \<open>
  Modelled from the spec: \<open>lib/types\<close> (the declarations of \<open>Booking\<close>,
  \<open>InsuranceRequest\<close> and \<open>GeneralRequest\<close>) is not among the sources. The fields are those
  of the spec's data model: identifier (\<open>_id\<close>, here \<open>ident\<close>), brand, model, year, status
  and createdAt for every row, phone and totalPrice for a booking as well. The tables read
  \<open>_id\<close>, brand, model, year and phone as fields that may be absent (\<open>booking._id\<close> is tested,
  the others are read with \<open>?.\<close>), so these are options.
\<close>

record Request =
  ident :: "string option"
  brand :: "string option"
  model :: "string option"
  year :: "string option"
  status :: string
  createdAt :: string

record Booking = Request +
  phone :: "string option"
  totalPrice :: int

type_synonym InsuranceRequest = Request
type_synonym GeneralRequest = Request

subsection \<open>String operations of the filters\<close>

text \<open>
  \<open>String.prototype.toLowerCase\<close> on the ASCII letters (a byte outside \<open>A..Z\<close> is kept), and
  \<open>String.prototype.includes\<close>: the argument occurs as a contiguous run.
\<close>

definition lower_char :: "char \<Rightarrow> char" where
  "lower_char c =
     (let n = (of_char c :: nat) in if 65 \<le> n \<and> n \<le> 90 then char_of (n + 32) else c)"

definition toLowerCase :: "string \<Rightarrow> string" where
  "toLowerCase s = map lower_char s"

fun String_includes :: "string \<Rightarrow> string \<Rightarrow> bool" where
  "String_includes [] t = (t = [])"
| "String_includes (c # s) t = (prefix t (c # s) \<or> String_includes s t)"

text \<open>\<open>item.f?.toLowerCase().includes(globalFilter.toLowerCase())\<close>, falsy when \<open>f\<close> is absent.\<close>

fun lower_includes :: "string option \<Rightarrow> string \<Rightarrow> bool" where
  "lower_includes None globalFilter = False"
| "lower_includes (Some f) globalFilter = String_includes (toLowerCase f) (toLowerCase globalFilter)"

text \<open>\<open>item.phone?.includes(globalFilter)\<close>.\<close>

fun plain_includes :: "string option \<Rightarrow> string \<Rightarrow> bool" where
  "plain_includes None globalFilter = False"
| "plain_includes (Some f) globalFilter = String_includes f globalFilter"

text \<open>\<open>old.map((row, index) => index === rowIndex ? { ...row, status: value } : row)\<close>.\<close>

definition set_status_at :: "nat \<Rightarrow> string \<Rightarrow> ('z Request_scheme) list \<Rightarrow> ('z Request_scheme) list" where
  "set_status_at rowIndex value old =
     map (\<lambda>(index, row). if index = rowIndex then row\<lparr>status := value\<rparr> else row)
         (enumerate 0 old)"

section \<open>components/bookings/data-table.tsx\<close>

text \<open>The component's state: one field per \<open>useState\<close>.\<close>

record 'r table_state =
  st_data :: "'r list"
  st_globalFilter :: string
  st_statusFilter :: string
  st_isLoading :: bool

text \<open>
  \<open>fetchData\<close>, run when \<open>statusFilter\<close> changes: the status filter goes to the backend
  (\<open>undefined\<close> for \<open>"all"\<close>); a successful response with data replaces the rows.
\<close>

definition bookings_fetch_arg :: "Booking table_state \<Rightarrow> string option" where
  "bookings_fetch_arg s = (if st_statusFilter s \<noteq> ''all'' then Some (st_statusFilter s) else None)"

definition bookings_fetchData ::
  "(string option \<Rightarrow> Booking list ApiResponse js_result) \<Rightarrow> Booking table_state \<Rightarrow> Booking table_state" where
  "bookings_fetchData getAll s =
     (case getAll (bookings_fetch_arg s) of
        Returned response \<Rightarrow>
          (case data response of
             Some bs \<Rightarrow> if success response
                        then s\<lparr>st_data := bs, st_isLoading := False\<rparr>
                        else s\<lparr>st_isLoading := False\<rparr>
           | None \<Rightarrow> s\<lparr>st_isLoading := False\<rparr>)
      | Threw e \<Rightarrow> s\<lparr>st_isLoading := False\<rparr>)"

definition bookings_filteredData :: "Booking table_state \<Rightarrow> Booking list" where
  "bookings_filteredData s =
     (let filtered = st_data s;
          filtered = (if st_globalFilter s \<noteq> []
                      then filter (\<lambda>item.
                             lower_includes (brand item) (st_globalFilter s) \<or>
                             lower_includes (model item) (st_globalFilter s) \<or>
                             lower_includes (year item) (st_globalFilter s) \<or>
                             plain_includes (phone item) (st_globalFilter s)) filtered
                      else filtered)
      in filtered)"

text \<open>
  \<open>updateData\<close> up to its \<open>await\<close>. Reading \<open>booking._id\<close> of a row that does not exist
  throws a TypeError (the guard reads it only when the column is \<open>"status"\<close>). When the guard
  passes, the row is overwritten optimistically and the captured \<open>booking\<close> is kept for the
  second half; otherwise nothing happens and nothing is pending.
\<close>

definition bookings_updateData_begin ::
  "Booking table_state \<Rightarrow> nat \<Rightarrow> string \<Rightarrow> string
     \<Rightarrow> (Booking table_state \<times> Booking option) js_result" where
  "bookings_updateData_begin s rowIndex columnId value =
     (if columnId = ''status''
      then (if rowIndex < length (st_data s)
            then (let booking = st_data s ! rowIndex
                  in if truthy (ident booking)
                     then Returned (s\<lparr>st_data := set_status_at rowIndex value (st_data s)\<rparr>,
                                    Some booking)
                     else Returned (s, None))
            else Threw (Error ''Cannot read properties of undefined''))
      else Returned (s, None))"

text \<open>
  \<open>updateData\<close> after the \<open>await\<close>: a failure result or a rejection reverts the row, in the
  state as it is then, to the captured status; success changes nothing.
\<close>

definition bookings_updateData_settle ::
  "Booking table_state \<Rightarrow> nat \<Rightarrow> Booking \<Rightarrow> 'a ApiResponse js_result \<Rightarrow> Booking table_state" where
  "bookings_updateData_settle s rowIndex booking outcome =
     (case outcome of
        Returned response \<Rightarrow>
          if \<not> success response
          then s\<lparr>st_data := set_status_at rowIndex (status booking) (st_data s)\<rparr>
          else s
      | Threw e \<Rightarrow> s\<lparr>st_data := set_status_at rowIndex (status booking) (st_data s)\<rparr>)"

text \<open>
  The whole call with nothing interleaved: the final state and the \<open>updateStatus\<close>
  requests that were issued, in order.
\<close>

definition bookings_updateData ::
  "(string \<Rightarrow> string \<Rightarrow> 'a ApiResponse js_result) \<Rightarrow> Booking table_state \<Rightarrow> nat \<Rightarrow> string \<Rightarrow> string
     \<Rightarrow> (Booking table_state \<times> (string \<times> string) list) js_result" where
  "bookings_updateData updateStatus s rowIndex columnId value =
     (case bookings_updateData_begin s rowIndex columnId value of
        Threw e \<Rightarrow> Threw e
      | Returned (s1, None) \<Rightarrow> Returned (s1, [])
      | Returned (s1, Some booking) \<Rightarrow>
          (case ident booking of
             None \<Rightarrow> Returned (s1, [])
           | Some bookingId \<Rightarrow>
               Returned (bookings_updateData_settle s1 rowIndex booking (updateStatus bookingId value),
                         [(bookingId, value)])))"

section \<open>components/insurance-requests/data-table.tsx\<close>

text \<open>
  The component's state together with the module variable \<open>globalCachedData\<close>
  (\<open>null\<close> until the first write).
\<close>

record insurance_state = "InsuranceRequest table_state" +
  insurance_globalCachedData :: "InsuranceRequest list option"

definition insurance_filteredData :: "insurance_state \<Rightarrow> InsuranceRequest list" where
  "insurance_filteredData s =
     (let filtered = st_data s;
          filtered = (if st_statusFilter s \<noteq> ''all''
                      then filter (\<lambda>item. status item = st_statusFilter s) filtered
                      else filtered);
          filtered = (if st_globalFilter s \<noteq> []
                      then filter (\<lambda>item.
                             lower_includes (brand item) (st_globalFilter s) \<or>
                             lower_includes (model item) (st_globalFilter s) \<or>
                             lower_includes (year item) (st_globalFilter s)) filtered
                      else filtered)
      in filtered)"

text \<open>
  \<open>updateData\<close> up to its \<open>await\<close>: the optimistic rows are written to the state and to
  the cache.
\<close>

definition insurance_updateData_begin ::
  "insurance_state \<Rightarrow> nat \<Rightarrow> string \<Rightarrow> string \<Rightarrow> (insurance_state \<times> InsuranceRequest option) js_result" where
  "insurance_updateData_begin s rowIndex columnId value =
     (if columnId = ''status''
      then (if rowIndex < length (st_data s)
            then (let request = st_data s ! rowIndex
                  in if truthy (ident request)
                     then (let newData = set_status_at rowIndex value (st_data s)
                           in Returned (s\<lparr>st_data := newData,
                                          insurance_globalCachedData := Some newData\<rparr>,
                                        Some request))
                     else Returned (s, None))
            else Threw (Error ''Cannot read properties of undefined''))
      else Returned (s, None))"

text \<open>
  \<open>updateData\<close> after the \<open>await\<close>: on failure only \<open>setData\<close> is called; the revert
  does not assign \<open>globalCachedData\<close>.
\<close>

definition insurance_updateData_settle ::
  "insurance_state \<Rightarrow> nat \<Rightarrow> InsuranceRequest \<Rightarrow> 'a ApiResponse js_result \<Rightarrow> insurance_state" where
  "insurance_updateData_settle s rowIndex request outcome =
     (case outcome of
        Returned response \<Rightarrow>
          if \<not> success response
          then s\<lparr>st_data := set_status_at rowIndex (status request) (st_data s)\<rparr>
          else s
      | Threw e \<Rightarrow> s\<lparr>st_data := set_status_at rowIndex (status request) (st_data s)\<rparr>)"

definition insurance_updateData ::
  "(string \<Rightarrow> string \<Rightarrow> 'a ApiResponse js_result) \<Rightarrow> insurance_state \<Rightarrow> nat \<Rightarrow> string \<Rightarrow> string
     \<Rightarrow> (insurance_state \<times> (string \<times> string) list) js_result" where
  "insurance_updateData updateStatus s rowIndex columnId value =
     (case insurance_updateData_begin s rowIndex columnId value of
        Threw e \<Rightarrow> Threw e
      | Returned (s1, None) \<Rightarrow> Returned (s1, [])
      | Returned (s1, Some request) \<Rightarrow>
          (case ident request of
             None \<Rightarrow> Returned (s1, [])
           | Some requestId \<Rightarrow>
               Returned (insurance_updateData_settle s1 rowIndex request (updateStatus requestId value),
                         [(requestId, value)])))"

section \<open>components/requests/data-table.tsx\<close>

text \<open>
  The component's state together with the module variable \<open>globalCachedData\<close>
  (\<open>null\<close> until the first write).
\<close>

record requests_state = "GeneralRequest table_state" +
  requests_globalCachedData :: "GeneralRequest list option"

definition requests_filteredData :: "requests_state \<Rightarrow> GeneralRequest list" where
  "requests_filteredData s =
     (let filtered = st_data s;
          filtered = (if st_statusFilter s \<noteq> ''all''
                      then filter (\<lambda>item. status item = st_statusFilter s) filtered
                      else filtered);
          filtered = (if st_globalFilter s \<noteq> []
                      then filter (\<lambda>item.
                             lower_includes (brand item) (st_globalFilter s) \<or>
                             lower_includes (model item) (st_globalFilter s) \<or>
                             lower_includes (year item) (st_globalFilter s)) filtered
                      else filtered)
      in filtered)"

text \<open>
  \<open>updateData\<close> up to its \<open>await\<close>: the optimistic rows are written to the state and to
  the cache.
\<close>

definition requests_updateData_begin ::
  "requests_state \<Rightarrow> nat \<Rightarrow> string \<Rightarrow> string \<Rightarrow> (requests_state \<times> GeneralRequest option) js_result" where
  "requests_updateData_begin s rowIndex columnId value =
     (if columnId = ''status''
      then (if rowIndex < length (st_data s)
            then (let request = st_data s ! rowIndex
                  in if truthy (ident request)
                     then (let newData = set_status_at rowIndex value (st_data s)
                           in Returned (s\<lparr>st_data := newData,
                                          requests_globalCachedData := Some newData\<rparr>,
                                        Some request))
                     else Returned (s, None))
            else Threw (Error ''Cannot read properties of undefined''))
      else Returned (s, None))"

text \<open>
  \<open>updateData\<close> after the \<open>await\<close>: on failure only \<open>setData\<close> is called; the revert
  does not assign \<open>globalCachedData\<close>.
\<close>

definition requests_updateData_settle ::
  "requests_state \<Rightarrow> nat \<Rightarrow> GeneralRequest \<Rightarrow> 'a ApiResponse js_result \<Rightarrow> requests_state" where
  "requests_updateData_settle s rowIndex request outcome =
     (case outcome of
        Returned response \<Rightarrow>
          if \<not> success response
          then s\<lparr>st_data := set_status_at rowIndex (status request) (st_data s)\<rparr>
          else s
      | Threw e \<Rightarrow> s\<lparr>st_data := set_status_at rowIndex (status request) (st_data s)\<rparr>)"

definition requests_updateData ::
  "(string \<Rightarrow> string \<Rightarrow> 'a ApiResponse js_result) \<Rightarrow> requests_state \<Rightarrow> nat \<Rightarrow> string \<Rightarrow> string
     \<Rightarrow> (requests_state \<times> (string \<times> string) list) js_result" where
  "requests_updateData updateStatus s rowIndex columnId value =
     (case requests_updateData_begin s rowIndex columnId value of
        Threw e \<Rightarrow> Threw e
      | Returned (s1, None) \<Rightarrow> Returned (s1, [])
      | Returned (s1, Some request) \<Rightarrow>
          (case ident request of
             None \<Rightarrow> Returned (s1, [])
           | Some requestId \<Rightarrow>
               Returned (requests_updateData_settle s1 rowIndex request (updateStatus requestId value),
                         [(requestId, value)])))"

section \<open>app/dashboard/page.tsx\<close>

record DashboardStats =
  totalBookings :: int
  pendingBookings :: int
  completedBookings :: int
  totalRevenue :: int
  totalInsuranceRequests :: int
  pendingInsuranceRequests :: int
  totalCarRequests :: int

text \<open>
  The payloads of the list endpoints; the page reads \<open>data.bookings || []\<close> and
  \<open>data.requests || []\<close>, so the list may be absent.
\<close>

record bookings_payload =
  bookings :: "Booking list option"

record 'r requests_payload =
  requests :: "'r list option"

record dashboard_state =
  d_stats :: "DashboardStats option"
  d_bookings :: "Booking list"
  d_insuranceRequests :: "InsuranceRequest list"
  d_generalRequests :: "GeneralRequest list"
  d_loading :: bool
  d_error :: "string option"

definition initial_dashboard :: dashboard_state where
  "initial_dashboard =
     \<lparr>d_stats = None, d_bookings = [], d_insuranceRequests = [], d_generalRequests = [],
      d_loading = True, d_error = None\<rparr>"

text \<open>\<open>xs || []\<close>.\<close>

fun or_empty :: "'a list option \<Rightarrow> 'a list" where
  "or_empty None = []"
| "or_empty (Some xs) = xs"

text \<open>
  \<open>fetchDashboardData\<close>, given what the four requests of the \<open>Promise.all\<close> settle to. A
  rejection of any of them lands in the \<open>catch\<close>; \<open>finally\<close> clears \<open>loading\<close>.
\<close>

definition fetchDashboardData ::
  "DashboardStats ApiResponse js_result \<Rightarrow> bookings_payload ApiResponse js_result
     \<Rightarrow> InsuranceRequest requests_payload ApiResponse js_result
     \<Rightarrow> GeneralRequest requests_payload ApiResponse js_result
     \<Rightarrow> dashboard_state \<Rightarrow> dashboard_state" where
  "fetchDashboardData stats_r bookings_r insurance_r requests_r s0 =
     (let s = s0\<lparr>d_loading := True\<rparr>
      in case (stats_r, bookings_r, insurance_r, requests_r) of
           (Returned statsResponse, Returned bookingsResponse,
            Returned insuranceResponse, Returned requestsResponse) \<Rightarrow>
             (let s = (case data statsResponse of
                         Some d \<Rightarrow> if success statsResponse then s\<lparr>d_stats := Some d\<rparr> else s
                       | None \<Rightarrow> s);
                  s = (case data bookingsResponse of
                         Some d \<Rightarrow> if success bookingsResponse
                                   then s\<lparr>d_bookings := or_empty (bookings d)\<rparr> else s
                       | None \<Rightarrow> s);
                  s = (case data insuranceResponse of
                         Some d \<Rightarrow> if success insuranceResponse
                                   then s\<lparr>d_insuranceRequests := or_empty (requests d)\<rparr> else s
                       | None \<Rightarrow> s);
                  s = (case data requestsResponse of
                         Some d \<Rightarrow> if success requestsResponse
                                   then s\<lparr>d_generalRequests := or_empty (requests d)\<rparr> else s
                       | None \<Rightarrow> s);
                  s = (if \<not> success statsResponse
                       then s\<lparr>d_error := Some ''Failed to load dashboard statistics''\<rparr> else s)
              in s\<lparr>d_loading := False\<rparr>)
         | _ \<Rightarrow> s\<lparr>d_error := Some ''Failed to fetch dashboard data.'', d_loading := False\<rparr>)"

subsection \<open>The recent-activity feed\<close>

text \<open>
  An entry of the merged list: the spread record with its three added fields. The three
  kinds of record are kept apart by a constructor.
\<close>

datatype activity_record =
  OfBooking Booking | OfInsurance InsuranceRequest | OfGeneral GeneralRequest

record activity =
  item :: activity_record
  activity_type :: string
  label :: string
  statusColor :: string

fun activity_createdAt :: "activity \<Rightarrow> string" where
  "activity_createdAt a =
     (case item a of OfBooking b \<Rightarrow> createdAt b
      | OfInsurance i \<Rightarrow> createdAt i
      | OfGeneral g \<Rightarrow> createdAt g)"

text \<open>
  \<open>Array.prototype.sort\<close> with a comparator: the sort is stable, so for a consistent
  comparator the result is the one stable ordering, computed here by insertion from the
  right (an element goes before the first element it does not compare greater than).
\<close>

fun insert_by :: "('a \<Rightarrow> 'a \<Rightarrow> int) \<Rightarrow> 'a \<Rightarrow> 'a list \<Rightarrow> 'a list" where
  "insert_by cmp x [] = [x]"
| "insert_by cmp x (y # ys) = (if cmp x y \<le> 0 then x # y # ys else y # insert_by cmp x ys)"

definition Array_sort :: "('a \<Rightarrow> 'a \<Rightarrow> int) \<Rightarrow> 'a list \<Rightarrow> 'a list" where
  "Array_sort cmp xs = foldr (insert_by cmp) xs []"

text \<open>
  \<open>getTime\<close> stands for \<open>s \<mapsto> new Date(s).getTime()\<close> on valid date strings
  (milliseconds since the epoch, an integer).
\<close>

definition recentActivity ::
  "(string \<Rightarrow> int) \<Rightarrow> Booking list \<Rightarrow> InsuranceRequest list \<Rightarrow> GeneralRequest list \<Rightarrow> activity list" where
  "recentActivity getTime bs is gs =
     take 5 (Array_sort
       (\<lambda>a b. getTime (activity_createdAt b) - getTime (activity_createdAt a))
       (map (\<lambda>b. \<lparr>item = OfBooking b, activity_type = ''Booking'', label = ''Booking'',
                    statusColor = ''default''\<rparr>) bs
        @ map (\<lambda>i. \<lparr>item = OfInsurance i, activity_type = ''Insurance'', label = ''Insurance'',
                      statusColor = ''secondary''\<rparr>) is
        @ map (\<lambda>g. \<lparr>item = OfGeneral g, activity_type = ''General'', label = ''Request'',
                      statusColor = ''outline''\<rparr>) gs))"

subsection \<open>What the page renders\<close>

record page_content =
  shown_stats :: DashboardStats
  totalAllRequests :: int
  totalCustomers :: nat
  shown_activity :: "activity list"
  shown_bookings :: "Booking list"
  shown_insuranceRequests :: "InsuranceRequest list"
  shown_generalRequests :: "GeneralRequest list"

datatype view = LoadingView | ErrorView string | PageView page_content

definition page_of :: "(string \<Rightarrow> int) \<Rightarrow> DashboardStats \<Rightarrow> dashboard_state \<Rightarrow> page_content" where
  "page_of getTime stats s =
     \<lparr>shown_stats = stats,
      totalAllRequests = totalBookings stats + totalInsuranceRequests stats
                           + totalCarRequests stats,
      totalCustomers = card (set (map phone (d_bookings s))),
      shown_activity = recentActivity getTime (d_bookings s)
                         (d_insuranceRequests s) (d_generalRequests s),
      shown_bookings = d_bookings s,
      shown_insuranceRequests = d_insuranceRequests s,
      shown_generalRequests = d_generalRequests s\<rparr>"

text \<open>
  The three returns of the component: the loading placeholder, the error view when
  \<open>error || !stats\<close>, the page otherwise.
\<close>

definition render :: "(string \<Rightarrow> int) \<Rightarrow> dashboard_state \<Rightarrow> view" where
  "render getTime s =
     (if d_loading s then LoadingView
      else case d_stats s of
             None \<Rightarrow>
               ErrorView (case d_error s of
                            None \<Rightarrow> ''Failed to load dashboard data''
                          | Some e \<Rightarrow> if e \<noteq> [] then e else ''Failed to load dashboard data'')
           | Some stats \<Rightarrow>
               (case d_error s of
                  None \<Rightarrow> PageView (page_of getTime stats s)
                | Some e \<Rightarrow> if e \<noteq> [] then ErrorView e
                            else PageView (page_of getTime stats s)))"

section \<open>Notions used to state the properties\<close>

text \<open>
  What the table components inspect of the awaited \<open>updateStatus\<close>: the update reports
  success when the promise resolves to a result whose \<open>success\<close> is true; a result with
  \<open>success\<close> false and a rejection both end in the \<open>catch\<close> block.
\<close>

definition reports_success :: "'a ApiResponse js_result \<Rightarrow> bool" where
  "reports_success outcome =
     (case outcome of Returned response \<Rightarrow> success response | Threw e \<Rightarrow> False)"





subsection \<open>Concrete inputs\<close>

text \<open>The booking of the specification's scenario, and a request of the same kind.\<close>

definition example_booking :: Booking where
  "example_booking =
     \<lparr>ident = Some ''b1'', brand = Some ''Toyota'', model = Some ''Corolla'',
      year = Some ''2021'', status = ''pending'', createdAt = ''2024-01-01'',
      phone = Some ''555-1'', totalPrice = 0\<rparr>"

definition example_request :: Request where
  "example_request =
     \<lparr>ident = Some ''r1'', brand = Some ''Honda'', model = Some ''Civic'',
      year = Some ''2020'', status = ''new'', createdAt = ''2024-01-02''\<rparr>"

definition example_bookings_state :: "Booking table_state" where
  "example_bookings_state =
     \<lparr>st_data = [example_booking], st_globalFilter = [], st_statusFilter = ''all'',
      st_isLoading = False\<rparr>"

definition example_insurance_state :: insurance_state where
  "example_insurance_state =
     \<lparr>st_data = [example_request], st_globalFilter = [], st_statusFilter = ''all'',
      st_isLoading = False, insurance_globalCachedData = Some [example_request]\<rparr>"

definition example_requests_state :: requests_state where
  "example_requests_state =
     \<lparr>st_data = [example_request], st_globalFilter = [], st_statusFilter = ''all'',
      st_isLoading = False, requests_globalCachedData = Some [example_request]\<rparr>"

text \<open>A backend that rejects every status update with HTTP 500, and one that accepts.\<close>

definition failure_response :: "unit ApiResponse" where
  "failure_response =
     \<lparr>success = False, data = None, message = None,
      error = Some ''HTTP error! status: 500 - Internal Server Error''\<rparr>"

definition success_response :: "unit ApiResponse" where
  "success_response = \<lparr>success = True, data = Some (), message = None, error = None\<rparr>"

definition failing_updateStatus :: "string \<Rightarrow> string \<Rightarrow> unit ApiResponse js_result" where
  "failing_updateStatus requestId value = Returned failure_response"

definition accepting_updateStatus :: "string \<Rightarrow> string \<Rightarrow> unit ApiResponse js_result" where
  "accepting_updateStatus requestId value = Returned success_response"

text \<open>
  A browser session whose token is only in \<open>localStorage\<close> yet, and four networks: one
  that answers 200 with a body that parses, one that answers 500, one that answers 401, and
  one that is down (\<open>fetch\<close> rejects with a \<open>TypeError\<close>).
\<close>

definition example_world :: world where
  "example_world =
     \<lparr>authToken = None,
      window = Some \<lparr>localStorage = [''authToken'' \<mapsto> ''secret''],
                     location_href = ''/dashboard''\<rparr>\<rparr>"

definition fetch_200 :: "string fetch" where
  "fetch_200 url init =
     Returned \<lparr>http_status = 200, text_body = Returned ''[1]'', json_body = Returned ''[1]''\<rparr>"

definition fetch_500 :: "string fetch" where
  "fetch_500 url init =
     Returned \<lparr>http_status = 500, text_body = Returned ''Internal Server Error'',
               json_body = Threw (Error ''Unexpected token I in JSON at position 0'')\<rparr>"

definition fetch_401 :: "string fetch" where
  "fetch_401 url init =
     Returned \<lparr>http_status = 401, text_body = Returned ''Unauthorized'',
               json_body = Threw (Error ''Unexpected token U in JSON at position 0'')\<rparr>"

definition fetch_down :: "string fetch" where
  "fetch_down url init = Threw (Error ''Failed to fetch'')"

text \<open>What the four dashboard requests may resolve to.\<close>

definition example_stats :: DashboardStats where
  "example_stats =
     \<lparr>totalBookings = 1, pendingBookings = 1, completedBookings = 0, totalRevenue = 0,
      totalInsuranceRequests = 1, pendingInsuranceRequests = 1, totalCarRequests = 1\<rparr>"

definition stats_response :: "DashboardStats ApiResponse" where
  "stats_response = \<lparr>success = True, data = Some example_stats, message = None, error = None\<rparr>"

definition bookings_response :: "bookings_payload ApiResponse" where
  "bookings_response =
     \<lparr>success = True, data = Some \<lparr>bookings = Some [example_booking]\<rparr>,
      message = None, error = None\<rparr>"

definition requests_response :: "Request requests_payload ApiResponse" where
  "requests_response =
     \<lparr>success = True, data = Some \<lparr>requests = Some [example_request]\<rparr>,
      message = None, error = None\<rparr>"

definition failed_response :: "'a ApiResponse" where
  "failed_response =
     \<lparr>success = False, data = None, message = None,
      error = Some ''HTTP error! status: 500 - Internal Server Error''\<rparr>"



definition confirmed_filter_state :: "Booking table_state" where
  "confirmed_filter_state =
     \<lparr>st_data = [example_booking], st_globalFilter = [], st_statusFilter = ''confirmed'',
      st_isLoading = False\<rparr>"

section \<open>Overwriting one row's status\<close>

lemma length_set_status_at: "length (set_status_at i v xs) = length xs"
  by (simp add: set_status_at_def)

lemma nth_set_status_at:
  "j < length xs \<Longrightarrow>
     set_status_at i v xs ! j = (if j = i then (xs ! j)\<lparr>status := v\<rparr> else xs ! j)"
  by (simp add: set_status_at_def nth_enumerate_eq)

lemma set_status_at_update:
  "i < length xs \<Longrightarrow> set_status_at i v xs = xs[i := (xs ! i)\<lparr>status := v\<rparr>]"
  by (rule nth_equalityI) (auto simp: length_set_status_at nth_set_status_at)

lemma set_status_at_revert:
  "i < length xs \<Longrightarrow> set_status_at i (status (xs ! i)) (set_status_at i v xs) = xs"
  by (rule nth_equalityI) (auto simp: length_set_status_at nth_set_status_at)

section \<open>The two halves of updateData\<close>

lemma bookings_begin_guarded:
  assumes "rowIndex < length (st_data s)" and "truthy (ident (st_data s ! rowIndex))"
  shows "bookings_updateData_begin s rowIndex ''status'' v =
           Returned (s\<lparr>st_data := set_status_at rowIndex v (st_data s)\<rparr>,
                     Some (st_data s ! rowIndex))"
  using assms by (simp add: bookings_updateData_begin_def Let_def)

lemma bookings_begin_noop:
  assumes "columnId \<noteq> ''status''
             \<or> (rowIndex < length (st_data s) \<and> \<not> truthy (ident (st_data s ! rowIndex)))"
  shows "bookings_updateData_begin s rowIndex columnId v = Returned (s, None)"
  using assms by (auto simp add: bookings_updateData_begin_def Let_def)

lemma bookings_settle_success:
  "reports_success outcome \<Longrightarrow> bookings_updateData_settle s1 rowIndex r outcome = s1"
  by (simp add: bookings_updateData_settle_def reports_success_def split: js_result.splits)

lemma bookings_settle_failure:
  "\<not> reports_success outcome \<Longrightarrow>
     bookings_updateData_settle s1 rowIndex r outcome =
       s1\<lparr>st_data := set_status_at rowIndex (status r) (st_data s1)\<rparr>"
  by (simp add: bookings_updateData_settle_def reports_success_def split: js_result.splits)

lemma insurance_begin_guarded:
  assumes "rowIndex < length (st_data s)" and "truthy (ident (st_data s ! rowIndex))"
  shows "insurance_updateData_begin s rowIndex ''status'' v =
           Returned (s\<lparr>st_data := set_status_at rowIndex v (st_data s), insurance_globalCachedData := Some (set_status_at rowIndex v (st_data s))\<rparr>,
                     Some (st_data s ! rowIndex))"
  using assms by (simp add: insurance_updateData_begin_def Let_def)

lemma insurance_begin_noop:
  assumes "columnId \<noteq> ''status''
             \<or> (rowIndex < length (st_data s) \<and> \<not> truthy (ident (st_data s ! rowIndex)))"
  shows "insurance_updateData_begin s rowIndex columnId v = Returned (s, None)"
  using assms by (auto simp add: insurance_updateData_begin_def Let_def)

lemma insurance_settle_success:
  "reports_success outcome \<Longrightarrow> insurance_updateData_settle s1 rowIndex r outcome = s1"
  by (simp add: insurance_updateData_settle_def reports_success_def split: js_result.splits)

lemma insurance_settle_failure:
  "\<not> reports_success outcome \<Longrightarrow>
     insurance_updateData_settle s1 rowIndex r outcome =
       s1\<lparr>st_data := set_status_at rowIndex (status r) (st_data s1)\<rparr>"
  by (simp add: insurance_updateData_settle_def reports_success_def split: js_result.splits)

lemma requests_begin_guarded:
  assumes "rowIndex < length (st_data s)" and "truthy (ident (st_data s ! rowIndex))"
  shows "requests_updateData_begin s rowIndex ''status'' v =
           Returned (s\<lparr>st_data := set_status_at rowIndex v (st_data s), requests_globalCachedData := Some (set_status_at rowIndex v (st_data s))\<rparr>,
                     Some (st_data s ! rowIndex))"
  using assms by (simp add: requests_updateData_begin_def Let_def)

lemma requests_begin_noop:
  assumes "columnId \<noteq> ''status''
             \<or> (rowIndex < length (st_data s) \<and> \<not> truthy (ident (st_data s ! rowIndex)))"
  shows "requests_updateData_begin s rowIndex columnId v = Returned (s, None)"
  using assms by (auto simp add: requests_updateData_begin_def Let_def)

lemma requests_settle_success:
  "reports_success outcome \<Longrightarrow> requests_updateData_settle s1 rowIndex r outcome = s1"
  by (simp add: requests_updateData_settle_def reports_success_def split: js_result.splits)

lemma requests_settle_failure:
  "\<not> reports_success outcome \<Longrightarrow>
     requests_updateData_settle s1 rowIndex r outcome =
       s1\<lparr>st_data := set_status_at rowIndex (status r) (st_data s1)\<rparr>"
  by (simp add: requests_updateData_settle_def reports_success_def split: js_result.splits)

lemma bookings_updateData_guarded:
  assumes "i < length (st_data s)" and "ident (st_data s ! i) = Some bookingId"
      and "bookingId \<noteq> []"
  shows "bookings_updateData updateStatus s i ''status'' v =
           Returned (bookings_updateData_settle (s\<lparr>st_data := set_status_at i v (st_data s)\<rparr>)
                       i (st_data s ! i) (updateStatus bookingId v),
                     [(bookingId, v)])"
  using assms by (simp add: bookings_updateData_def bookings_begin_guarded)

lemma insurance_updateData_guarded:
  assumes "i < length (st_data s)" and "ident (st_data s ! i) = Some requestId"
      and "requestId \<noteq> []"
  shows "insurance_updateData updateStatus s i ''status'' v =
           Returned (insurance_updateData_settle
                       (s\<lparr>st_data := set_status_at i v (st_data s),
                          insurance_globalCachedData := Some (set_status_at i v (st_data s))\<rparr>)
                       i (st_data s ! i) (updateStatus requestId v),
                     [(requestId, v)])"
  using assms by (simp add: insurance_updateData_def insurance_begin_guarded)

lemma requests_updateData_guarded:
  assumes "i < length (st_data s)" and "ident (st_data s ! i) = Some requestId"
      and "requestId \<noteq> []"
  shows "requests_updateData updateStatus s i ''status'' v =
           Returned (requests_updateData_settle
                       (s\<lparr>st_data := set_status_at i v (st_data s),
                          requests_globalCachedData := Some (set_status_at i v (st_data s))\<rparr>)
                       i (st_data s ! i) (updateStatus requestId v),
                     [(requestId, v)])"
  using assms by (simp add: requests_updateData_def requests_begin_guarded)

lemma set_status_at_single: "set_status_at 0 v [r] = [r\<lparr>status := v\<rparr>]"
  by (simp add: set_status_at_def enumerate_simps)

lemma bookings_round_trip:
  fixes sb :: "Booking table_state" and outcome :: "'a ApiResponse js_result"
    and updateStatus :: "string \<Rightarrow> string \<Rightarrow> 'b ApiResponse js_result"
  assumes "i < length (st_data sb)" and "truthy (ident (st_data sb ! i))"
  shows "(\<exists>s1. bookings_updateData_begin sb i ''status'' newStatus = Returned (s1, Some (st_data sb ! i))
           \<and> status (st_data s1 ! i) = newStatus
           \<and> (\<exists>rowId. ident (st_data sb ! i) = Some rowId
                 \<and> bookings_updateData updateStatus sb i ''status'' newStatus =
                     Returned (bookings_updateData_settle s1 i (st_data sb ! i) (updateStatus rowId newStatus),
                               [(rowId, newStatus)]))
           \<and> (reports_success outcome \<longrightarrow>
                  bookings_updateData_settle s1 i (st_data sb ! i) outcome = s1)
           \<and> (\<not> reports_success outcome \<longrightarrow>
                  status (st_data (bookings_updateData_settle s1 i (st_data sb ! i) outcome) ! i)
                    = status (st_data sb ! i)
                  \<and> st_data (bookings_updateData_settle s1 i (st_data sb ! i) outcome) = st_data sb))"
proof -
  let ?s1 = "sb\<lparr>st_data := set_status_at i newStatus (st_data sb)\<rparr>"
  have "bookings_updateData_begin sb i ''status'' newStatus = Returned (?s1, Some (st_data sb ! i))"
    using assms by (rule bookings_begin_guarded)
  moreover have "status (st_data ?s1 ! i) = newStatus"
    using assms(1) by (simp add: nth_set_status_at)
  moreover have "\<exists>rowId. ident (st_data sb ! i) = Some rowId
                 \<and> bookings_updateData updateStatus sb i ''status'' newStatus =
                     Returned (bookings_updateData_settle ?s1 i (st_data sb ! i) (updateStatus rowId newStatus),
                               [(rowId, newStatus)])"
  proof (cases "ident (st_data sb ! i)")
    case None
    with assms(2) show ?thesis by simp
  next
    case (Some rowId)
    with assms show ?thesis
      by (simp add: bookings_updateData_guarded)
  qed
  moreover have "bookings_updateData_settle ?s1 i (st_data sb ! i) outcome = ?s1"
    if "reports_success outcome"
    using that by (rule bookings_settle_success)
  moreover have "st_data (bookings_updateData_settle ?s1 i (st_data sb ! i) outcome) = st_data sb"
    if "\<not> reports_success outcome"
    using that assms(1) by (simp add: bookings_settle_failure set_status_at_revert)
  ultimately show ?thesis
    by (intro exI[of _ ?s1]) simp
qed

lemma insurance_round_trip:
  fixes si :: insurance_state and outcome :: "'a ApiResponse js_result"
    and updateStatus :: "string \<Rightarrow> string \<Rightarrow> 'b ApiResponse js_result"
  assumes "k < length (st_data si)" and "truthy (ident (st_data si ! k))"
  shows "(\<exists>s1. insurance_updateData_begin si k ''status'' newStatus = Returned (s1, Some (st_data si ! k))
           \<and> status (st_data s1 ! k) = newStatus
           \<and> insurance_globalCachedData s1 = Some (st_data s1)
           \<and> (\<exists>rowId. ident (st_data si ! k) = Some rowId
                 \<and> insurance_updateData updateStatus si k ''status'' newStatus =
                     Returned (insurance_updateData_settle s1 k (st_data si ! k) (updateStatus rowId newStatus),
                               [(rowId, newStatus)]))
           \<and> (reports_success outcome \<longrightarrow>
                  insurance_updateData_settle s1 k (st_data si ! k) outcome = s1)
           \<and> (\<not> reports_success outcome \<longrightarrow>
                  status (st_data (insurance_updateData_settle s1 k (st_data si ! k) outcome) ! k)
                    = status (st_data si ! k)
                  \<and> st_data (insurance_updateData_settle s1 k (st_data si ! k) outcome) = st_data si))"
proof -
  let ?nd = "set_status_at k newStatus (st_data si)"
  let ?s1 = "si\<lparr>st_data := ?nd, insurance_globalCachedData := Some ?nd\<rparr>"
  have "insurance_updateData_begin si k ''status'' newStatus = Returned (?s1, Some (st_data si ! k))"
    using assms by (rule insurance_begin_guarded)
  moreover have "status (st_data ?s1 ! k) = newStatus"
    using assms(1) by (simp add: nth_set_status_at)
  moreover have "insurance_globalCachedData ?s1 = Some (st_data ?s1)"
    by simp
  moreover have "\<exists>rowId. ident (st_data si ! k) = Some rowId
                 \<and> insurance_updateData updateStatus si k ''status'' newStatus =
                     Returned (insurance_updateData_settle ?s1 k (st_data si ! k) (updateStatus rowId newStatus),
                               [(rowId, newStatus)])"
  proof (cases "ident (st_data si ! k)")
    case None
    with assms(2) show ?thesis by simp
  next
    case (Some rowId)
    with assms show ?thesis
      by (simp add: insurance_updateData_guarded)
  qed
  moreover have "insurance_updateData_settle ?s1 k (st_data si ! k) outcome = ?s1"
    if "reports_success outcome"
    using that by (rule insurance_settle_success)
  moreover have "st_data (insurance_updateData_settle ?s1 k (st_data si ! k) outcome) = st_data si"
    if "\<not> reports_success outcome"
    using that assms(1) by (simp add: insurance_settle_failure set_status_at_revert)
  ultimately show ?thesis
    by (intro exI[of _ ?s1]) simp
qed

lemma requests_round_trip:
  fixes sr :: requests_state and outcome :: "'a ApiResponse js_result"
    and updateStatus :: "string \<Rightarrow> string \<Rightarrow> 'b ApiResponse js_result"
  assumes "m < length (st_data sr)" and "truthy (ident (st_data sr ! m))"
  shows "(\<exists>s1. requests_updateData_begin sr m ''status'' newStatus = Returned (s1, Some (st_data sr ! m))
           \<and> status (st_data s1 ! m) = newStatus
           \<and> requests_globalCachedData s1 = Some (st_data s1)
           \<and> (\<exists>rowId. ident (st_data sr ! m) = Some rowId
                 \<and> requests_updateData updateStatus sr m ''status'' newStatus =
                     Returned (requests_updateData_settle s1 m (st_data sr ! m) (updateStatus rowId newStatus),
                               [(rowId, newStatus)]))
           \<and> (reports_success outcome \<longrightarrow>
                  requests_updateData_settle s1 m (st_data sr ! m) outcome = s1)
           \<and> (\<not> reports_success outcome \<longrightarrow>
                  status (st_data (requests_updateData_settle s1 m (st_data sr ! m) outcome) ! m)
                    = status (st_data sr ! m)
                  \<and> st_data (requests_updateData_settle s1 m (st_data sr ! m) outcome) = st_data sr))"
proof -
  let ?nd = "set_status_at m newStatus (st_data sr)"
  let ?s1 = "sr\<lparr>st_data := ?nd, requests_globalCachedData := Some ?nd\<rparr>"
  have "requests_updateData_begin sr m ''status'' newStatus = Returned (?s1, Some (st_data sr ! m))"
    using assms by (rule requests_begin_guarded)
  moreover have "status (st_data ?s1 ! m) = newStatus"
    using assms(1) by (simp add: nth_set_status_at)
  moreover have "requests_globalCachedData ?s1 = Some (st_data ?s1)"
    by simp
  moreover have "\<exists>rowId. ident (st_data sr ! m) = Some rowId
                 \<and> requests_updateData updateStatus sr m ''status'' newStatus =
                     Returned (requests_updateData_settle ?s1 m (st_data sr ! m) (updateStatus rowId newStatus),
                               [(rowId, newStatus)])"
  proof (cases "ident (st_data sr ! m)")
    case None
    with assms(2) show ?thesis by simp
  next
    case (Some rowId)
    with assms show ?thesis
      by (simp add: requests_updateData_guarded)
  qed
  moreover have "requests_updateData_settle ?s1 m (st_data sr ! m) outcome = ?s1"
    if "reports_success outcome"
    using that by (rule requests_settle_success)
  moreover have "st_data (requests_updateData_settle ?s1 m (st_data sr ! m) outcome) = st_data sr"
    if "\<not> reports_success outcome"
    using that assms(1) by (simp add: requests_settle_failure set_status_at_revert)
  ultimately show ?thesis
    by (intro exI[of _ ?s1]) simp
qed

text \<open>
  Claim C1. Take a row of a table that carries an identifier, with status \<open>S0\<close>, and call
  \<open>updateData\<close> on its status column with the value \<open>S1\<close> (\<open>newStatus\<close>). Up to the \<open>await\<close> the call
  replaces that row's status by \<open>S1\<close> in the local state (and the cache, where the table
  has one, holds the same rows). The call issues one \<open>updateStatus\<close> request, for that
  row's identifier and \<open>S1\<close>, and ends in the state its second half makes of the
  request's outcome. If the backend update then
  reports success, the second half of the call changes nothing, so the status stays \<open>S1\<close>;
  if it reports failure (a failure result or a rejection), the row's status is \<open>S0\<close> again
  and the rows are exactly those held before the call. This holds in the bookings, the
  insurance-requests and the general-requests table.
\<close>

theorem optimistic_status_round_trip:
  fixes sb :: "Booking table_state" and si :: insurance_state and sr :: requests_state
    and outcome :: "'a ApiResponse js_result"
    and updateStatus :: "string \<Rightarrow> string \<Rightarrow> 'b ApiResponse js_result"
  assumes "i < length (st_data sb)" and "truthy (ident (st_data sb ! i))"
      and "k < length (st_data si)" and "truthy (ident (st_data si ! k))"
      and "m < length (st_data sr)" and "truthy (ident (st_data sr ! m))"
  shows "(\<exists>s1. bookings_updateData_begin sb i ''status'' newStatus = Returned (s1, Some (st_data sb ! i))
           \<and> status (st_data s1 ! i) = newStatus
           \<and> (\<exists>rowId. ident (st_data sb ! i) = Some rowId
                 \<and> bookings_updateData updateStatus sb i ''status'' newStatus =
                     Returned (bookings_updateData_settle s1 i (st_data sb ! i) (updateStatus rowId newStatus),
                               [(rowId, newStatus)]))
           \<and> (reports_success outcome \<longrightarrow>
                  bookings_updateData_settle s1 i (st_data sb ! i) outcome = s1)
           \<and> (\<not> reports_success outcome \<longrightarrow>
                  status (st_data (bookings_updateData_settle s1 i (st_data sb ! i) outcome) ! i)
                    = status (st_data sb ! i)
                  \<and> st_data (bookings_updateData_settle s1 i (st_data sb ! i) outcome) = st_data sb))
       \<and> (\<exists>s1. insurance_updateData_begin si k ''status'' newStatus = Returned (s1, Some (st_data si ! k))
           \<and> status (st_data s1 ! k) = newStatus
           \<and> insurance_globalCachedData s1 = Some (st_data s1)
           \<and> (\<exists>rowId. ident (st_data si ! k) = Some rowId
                 \<and> insurance_updateData updateStatus si k ''status'' newStatus =
                     Returned (insurance_updateData_settle s1 k (st_data si ! k) (updateStatus rowId newStatus),
                               [(rowId, newStatus)]))
           \<and> (reports_success outcome \<longrightarrow>
                  insurance_updateData_settle s1 k (st_data si ! k) outcome = s1)
           \<and> (\<not> reports_success outcome \<longrightarrow>
                  status (st_data (insurance_updateData_settle s1 k (st_data si ! k) outcome) ! k)
                    = status (st_data si ! k)
                  \<and> st_data (insurance_updateData_settle s1 k (st_data si ! k) outcome) = st_data si))
       \<and> (\<exists>s1. requests_updateData_begin sr m ''status'' newStatus = Returned (s1, Some (st_data sr ! m))
           \<and> status (st_data s1 ! m) = newStatus
           \<and> requests_globalCachedData s1 = Some (st_data s1)
           \<and> (\<exists>rowId. ident (st_data sr ! m) = Some rowId
                 \<and> requests_updateData updateStatus sr m ''status'' newStatus =
                     Returned (requests_updateData_settle s1 m (st_data sr ! m) (updateStatus rowId newStatus),
                               [(rowId, newStatus)]))
           \<and> (reports_success outcome \<longrightarrow>
                  requests_updateData_settle s1 m (st_data sr ! m) outcome = s1)
           \<and> (\<not> reports_success outcome \<longrightarrow>
                  status (st_data (requests_updateData_settle s1 m (st_data sr ! m) outcome) ! m)
                    = status (st_data sr ! m)
                  \<and> st_data (requests_updateData_settle s1 m (st_data sr ! m) outcome) = st_data sr))"
  using bookings_round_trip [OF assms(1,2)] insurance_round_trip [OF assms(3,4)]
    requests_round_trip [OF assms(5,6)]
  by (intro conjI)

theorem optimistic_status_round_trip_witness:
  "0 < length (st_data example_bookings_state)
   \<and> truthy (ident (st_data example_bookings_state ! 0))
   \<and> 0 < length (st_data example_insurance_state)
   \<and> truthy (ident (st_data example_insurance_state ! 0))
   \<and> 0 < length (st_data example_requests_state)
   \<and> truthy (ident (st_data example_requests_state ! 0))
   \<and> (\<exists>s1. bookings_updateData_begin example_bookings_state 0 ''status'' ''completed''
              = Returned (s1, Some example_booking)
          \<and> status (st_data s1 ! 0) = ''completed''
          \<and> st_data (bookings_updateData_settle s1 0 example_booking (Returned failure_response))
              = [example_booking])
   \<and> (\<exists>s1. insurance_updateData_begin example_insurance_state 0 ''status'' ''completed''
              = Returned (s1, Some example_request)
          \<and> status (st_data s1 ! 0) = ''completed''
          \<and> insurance_updateData_settle s1 0 example_request (Returned success_response) = s1)"
proof -
  have b: "0 < length (st_data example_bookings_state)"
    "truthy (ident (st_data example_bookings_state ! 0))"
    by (simp_all add: example_bookings_state_def example_booking_def)
  have i: "0 < length (st_data example_insurance_state)"
    "truthy (ident (st_data example_insurance_state ! 0))"
    by (simp_all add: example_insurance_state_def example_request_def)
  have r: "0 < length (st_data example_requests_state)"
    "truthy (ident (st_data example_requests_state ! 0))"
    by (simp_all add: example_requests_state_def example_request_def)
  have f: "\<not> reports_success (Returned failure_response)"
    by (simp add: reports_success_def failure_response_def)
  have s: "reports_success (Returned success_response)"
    by (simp add: reports_success_def success_response_def)
  have eb: "st_data example_bookings_state ! 0 = example_booking"
    "st_data example_bookings_state = [example_booking]"
    by (simp_all add: example_bookings_state_def)
  have ei: "st_data example_insurance_state ! 0 = example_request"
    by (simp add: example_insurance_state_def)
  from optimistic_status_round_trip
         [OF b i r, where newStatus = "''completed''" and outcome = "Returned failure_response"
            and updateStatus = failing_updateStatus] f
  have 1: "\<exists>s1. bookings_updateData_begin example_bookings_state 0 ''status'' ''completed''
              = Returned (s1, Some example_booking)
          \<and> status (st_data s1 ! 0) = ''completed''
          \<and> st_data (bookings_updateData_settle s1 0 example_booking (Returned failure_response))
              = [example_booking]"
    by (fastforce simp: eb)
  from optimistic_status_round_trip
         [OF b i r, where newStatus = "''completed''" and outcome = "Returned success_response"
            and updateStatus = accepting_updateStatus] s
  have 2: "\<exists>s1. insurance_updateData_begin example_insurance_state 0 ''status'' ''completed''
              = Returned (s1, Some example_request)
          \<and> status (st_data s1 ! 0) = ''completed''
          \<and> insurance_updateData_settle s1 0 example_request (Returned success_response) = s1"
    by (fastforce simp: ei)
  from b i r 1 2 show ?thesis by (intro conjI)
qed

section \<open>The cache after a failed update, and the guard\<close>

text \<open>
  Claim C2, evaluated on the code. The table holds the one request \<open>r1\<close> with status
  \<open>new\<close>, and the cache holds the same row. \<open>updateData(0, "status", "contacted")\<close> is
  called and the backend reports failure. Afterwards the local rows are back to status
  \<open>new\<close>, but \<open>globalCachedData\<close> still holds the row with status \<open>contacted\<close>: the revert
  writes the state only. The insurance-requests and the general-requests table behave alike.
\<close>

theorem failed_update_leaves_cache_optimistic:
  "insurance_updateData failing_updateStatus example_insurance_state 0 ''status'' ''contacted''
     = Returned
         (example_insurance_state
            \<lparr>insurance_globalCachedData := Some [example_request\<lparr>status := ''contacted''\<rparr>]\<rparr>,
          [(''r1'', ''contacted'')])
   \<and> requests_updateData failing_updateStatus example_requests_state 0 ''status'' ''contacted''
     = Returned
         (example_requests_state
            \<lparr>requests_globalCachedData := Some [example_request\<lparr>status := ''contacted''\<rparr>]\<rparr>,
          [(''r1'', ''contacted'')])
   \<and> st_data example_insurance_state = [example_request]
   \<and> insurance_globalCachedData example_insurance_state = Some [example_request]
   \<and> example_request\<lparr>status := ''contacted''\<rparr> \<noteq> example_request"
proof -
  have f: "\<not> reports_success (failing_updateStatus ''r1'' ''contacted'')"
    by (simp add: reports_success_def failing_updateStatus_def failure_response_def)
  have 1: "insurance_updateData failing_updateStatus example_insurance_state 0 ''status'' ''contacted''
     = Returned
         (example_insurance_state
            \<lparr>insurance_globalCachedData := Some [example_request\<lparr>status := ''contacted''\<rparr>]\<rparr>,
          [(''r1'', ''contacted'')])"
    by (subst insurance_updateData_guarded [where requestId = "''r1''"])
       (simp_all add: example_insurance_state_def example_request_def
          insurance_settle_failure [OF f] set_status_at_single)
  have 2: "requests_updateData failing_updateStatus example_requests_state 0 ''status'' ''contacted''
     = Returned
         (example_requests_state
            \<lparr>requests_globalCachedData := Some [example_request\<lparr>status := ''contacted''\<rparr>]\<rparr>,
          [(''r1'', ''contacted'')])"
    by (subst requests_updateData_guarded [where requestId = "''r1''"])
       (simp_all add: example_requests_state_def example_request_def
          requests_settle_failure [OF f] set_status_at_single)
  have 3: "example_request\<lparr>status := ''contacted''\<rparr> \<noteq> example_request"
    by (simp add: example_request_def)
  show ?thesis
    using 1 2 3 by (simp add: example_insurance_state_def)
qed

text \<open>
  Claim C10. When the edited column is not \<open>"status"\<close>, or the targeted row exists and
  its \<open>_id\<close> is absent (or empty, which is as falsy), \<open>updateData\<close> returns with the
  state unchanged (rows, filters, and the cache where the table has one) and with no
  \<open>updateStatus\<close> request issued. This holds in all three tables.
\<close>

theorem updateData_guard_noop:
  fixes sb :: "Booking table_state" and si :: insurance_state and sr :: requests_state
    and updateStatus :: "string \<Rightarrow> string \<Rightarrow> 'a ApiResponse js_result"
  shows "(columnId \<noteq> ''status''
            \<or> (i < length (st_data sb) \<and> \<not> truthy (ident (st_data sb ! i)))
          \<longrightarrow> bookings_updateData updateStatus sb i columnId v = Returned (sb, []))
       \<and> (columnId \<noteq> ''status''
            \<or> (i < length (st_data si) \<and> \<not> truthy (ident (st_data si ! i)))
          \<longrightarrow> insurance_updateData updateStatus si i columnId v = Returned (si, []))
       \<and> (columnId \<noteq> ''status''
            \<or> (i < length (st_data sr) \<and> \<not> truthy (ident (st_data sr ! i)))
          \<longrightarrow> requests_updateData updateStatus sr i columnId v = Returned (sr, []))"
  by (simp add: bookings_updateData_def insurance_updateData_def requests_updateData_def
        bookings_begin_noop insurance_begin_noop requests_begin_noop)

theorem updateData_guard_noop_witness:
  "''brand'' \<noteq> ''status''
   \<and> bookings_updateData failing_updateStatus example_bookings_state 0 ''brand'' ''Honda''
       = Returned (example_bookings_state, [])
   \<and> insurance_updateData failing_updateStatus example_insurance_state 0 ''brand'' ''Honda''
       = Returned (example_insurance_state, [])
   \<and> 0 < length (st_data (example_requests_state\<lparr>st_data := [example_request\<lparr>ident := None\<rparr>]\<rparr>))
   \<and> \<not> truthy (ident (st_data (example_requests_state\<lparr>st_data := [example_request\<lparr>ident := None\<rparr>]\<rparr>) ! 0))
   \<and> requests_updateData accepting_updateStatus
         (example_requests_state\<lparr>st_data := [example_request\<lparr>ident := None\<rparr>]\<rparr>) 0
         ''status'' ''resolved''
       = Returned (example_requests_state\<lparr>st_data := [example_request\<lparr>ident := None\<rparr>]\<rparr>, [])"
proof -
  have c: "''brand'' \<noteq> ''status''" by simp
  let ?sr = "example_requests_state\<lparr>st_data := [example_request\<lparr>ident := None\<rparr>]\<rparr>"
  have r: "0 < length (st_data ?sr)" "\<not> truthy (ident (st_data ?sr ! 0))"
    by simp_all
  from updateData_guard_noop
         [of "''brand''" 0 example_bookings_state failing_updateStatus "''Honda''"
             example_insurance_state example_requests_state] c
  have 1: "bookings_updateData failing_updateStatus example_bookings_state 0 ''brand'' ''Honda''
             = Returned (example_bookings_state, [])"
    and 2: "insurance_updateData failing_updateStatus example_insurance_state 0 ''brand'' ''Honda''
             = Returned (example_insurance_state, [])"
    by blast+
  from updateData_guard_noop
         [of "''status''" 0 example_bookings_state accepting_updateStatus "''resolved''"
             example_insurance_state ?sr] r
  have 3: "requests_updateData accepting_updateStatus ?sr 0 ''status'' ''resolved''
             = Returned (?sr, [])"
    by blast
  from c r 1 2 3 show ?thesis by (intro conjI)
qed

section \<open>The request function\<close>

lemma apiRequest_returns:
  "\<exists>r. fst (apiRequest base fetch endpoint options w) = Returned r"
  by (simp add: apiRequest_def split: prod.splits js_result.splits)

lemma apiRequest_try_cases:
  assumes "getAuthToken w = (token, w1)"
  shows "apiRequest_try base fetch endpoint options w =
           (case fetch (base @ endpoint) (fetch_init options token) of
              Threw e \<Rightarrow> (Threw e, w1)
            | Returned response \<Rightarrow>
                if http_status response = 401
                then (Threw (Error ''Authentication failed''), navigate_login (clearAuthToken w1))
                else if \<not> response_ok response
                then (case text_body response of
                        Threw e \<Rightarrow> (Threw e, w1)
                      | Returned errorText \<Rightarrow>
                          (Threw (Error (''HTTP error! status: ''
                                           @ Number_toString (int (http_status response))
                                           @ '' - '' @ errorText)), w1))
                else (case json_body response of
                        Threw e \<Rightarrow> (Threw e, w1)
                      | Returned json \<Rightarrow>
                          (Returned \<lparr>success = True, data = Some json,
                                     message = None, error = None\<rparr>, w1)))"
  using assms by (simp add: apiRequest_try_def)

lemma apiRequest_fetch_threw:
  assumes "fetch (base @ endpoint) (fetch_init options (fst (getAuthToken w))) = Threw (Error m)"
  shows "fst (apiRequest base fetch endpoint options w) =
           Returned \<lparr>success = False, data = None, message = None, error = Some m\<rparr>"
  using assms
  by (cases "getAuthToken w") (simp add: apiRequest_def apiRequest_try_cases)

lemma apiRequest_ok_json:
  assumes "fetch (base @ endpoint) (fetch_init options (fst (getAuthToken w))) = Returned response"
      and "response_ok response" and "json_body response = Returned json"
  shows "fst (apiRequest base fetch endpoint options w) =
           Returned \<lparr>success = True, data = Some json, message = None, error = None\<rparr>"
  using assms
  by (cases "getAuthToken w") (simp add: apiRequest_def apiRequest_try_cases response_ok_def)

lemma apiRequest_ok_json_threw:
  assumes "fetch (base @ endpoint) (fetch_init options (fst (getAuthToken w))) = Returned response"
      and "response_ok response" and "json_body response = Threw (Error m)"
  shows "fst (apiRequest base fetch endpoint options w) =
           Returned \<lparr>success = False, data = None, message = None, error = Some m\<rparr>"
  using assms
  by (cases "getAuthToken w") (simp add: apiRequest_def apiRequest_try_cases response_ok_def)

lemma apiRequest_not_ok_text:
  assumes "fetch (base @ endpoint) (fetch_init options (fst (getAuthToken w))) = Returned response"
      and "\<not> response_ok response" and "http_status response \<noteq> 401"
      and "text_body response = Returned errorText"
  shows "fst (apiRequest base fetch endpoint options w) =
           Returned \<lparr>success = False, data = None, message = None,
                     error = Some (''HTTP error! status: ''
                                     @ Number_toString (int (http_status response))
                                     @ '' - '' @ errorText)\<rparr>"
  using assms
  by (cases "getAuthToken w") (simp add: apiRequest_def apiRequest_try_cases)

lemma apiRequest_not_ok_text_threw:
  assumes "fetch (base @ endpoint) (fetch_init options (fst (getAuthToken w))) = Returned response"
      and "\<not> response_ok response" and "http_status response \<noteq> 401"
      and "text_body response = Threw (Error m)"
  shows "fst (apiRequest base fetch endpoint options w) =
           Returned \<lparr>success = False, data = None, message = None, error = Some m\<rparr>"
  using assms
  by (cases "getAuthToken w") (simp add: apiRequest_def apiRequest_try_cases)

text \<open>
  Claim C3. \<open>apiRequest\<close> never throws: for every base URL, network, endpoint, options
  and token state it returns a result. When the response is 2xx and its body parses, the
  result is \<open>{success: true, data: <parsed JSON>}\<close>. When the status is neither 2xx nor
  401 and the body text can be read, the result is a failure whose message is
  \<open>HTTP error! status: <code> - <body text>\<close>. When \<open>fetch\<close>, the JSON parse or the text
  read throws an \<open>Error\<close>, the result is a failure carrying that error's message.
\<close>

theorem apiRequest_never_throws:
  fixes fetch :: "'a fetch"
  shows "(\<exists>r. fst (apiRequest base fetch endpoint options w) = Returned r)
       \<and> (fetch (base @ endpoint) (fetch_init options (fst (getAuthToken w))) = Returned response
            \<and> response_ok response \<and> json_body response = Returned json
          \<longrightarrow> fst (apiRequest base fetch endpoint options w) =
                Returned \<lparr>success = True, data = Some json, message = None, error = None\<rparr>)
       \<and> (fetch (base @ endpoint) (fetch_init options (fst (getAuthToken w))) = Returned response
            \<and> \<not> response_ok response \<and> http_status response \<noteq> 401
            \<and> text_body response = Returned errorText
          \<longrightarrow> fst (apiRequest base fetch endpoint options w) =
                Returned \<lparr>success = False, data = None, message = None,
                          error = Some (''HTTP error! status: ''
                                          @ Number_toString (int (http_status response))
                                          @ '' - '' @ errorText)\<rparr>)
       \<and> (fetch (base @ endpoint) (fetch_init options (fst (getAuthToken w))) = Threw (Error m)
            \<or> (fetch (base @ endpoint) (fetch_init options (fst (getAuthToken w))) = Returned response
                \<and> response_ok response \<and> json_body response = Threw (Error m))
            \<or> (fetch (base @ endpoint) (fetch_init options (fst (getAuthToken w))) = Returned response
                \<and> \<not> response_ok response \<and> http_status response \<noteq> 401
                \<and> text_body response = Threw (Error m))
          \<longrightarrow> fst (apiRequest base fetch endpoint options w) =
                Returned \<lparr>success = False, data = None, message = None, error = Some m\<rparr>)"
  using apiRequest_returns [of base fetch endpoint options w]
    apiRequest_ok_json [of fetch base endpoint options w response json]
    apiRequest_not_ok_text [of fetch base endpoint options w response errorText]
    apiRequest_fetch_threw [of fetch base endpoint options w m]
    apiRequest_ok_json_threw [of fetch base endpoint options w response m]
    apiRequest_not_ok_text_threw [of fetch base endpoint options w response m]
  by blast

lemma Number_toString_500: "Number_toString 500 = ''500''"
  by (simp add: Number_toString_def nat_toString.simps digit_char_def)

theorem apiRequest_never_throws_witness:
  "fetch_200 (''https://drvyn-backend.vercel.app'' @ ''/admin/customers'')
       (fetch_init no_options (fst (getAuthToken example_world)))
     = Returned \<lparr>http_status = 200, text_body = Returned ''[1]'', json_body = Returned ''[1]''\<rparr>
   \<and> response_ok \<lparr>http_status = 200, text_body = Returned ''[1]'',
                    json_body = (Returned ''[1]'' :: string js_result)\<rparr>
   \<and> fst (apiRequest ''https://drvyn-backend.vercel.app'' fetch_200 ''/admin/customers''
            no_options example_world)
       = Returned \<lparr>success = True, data = Some ''[1]'', message = None, error = None\<rparr>
   \<and> fst (apiRequest ''https://drvyn-backend.vercel.app'' fetch_500 ''/admin/customers''
            no_options example_world)
       = Returned \<lparr>success = False, data = None, message = None,
                   error = Some ''HTTP error! status: 500 - Internal Server Error''\<rparr>
   \<and> fst (apiRequest ''https://drvyn-backend.vercel.app'' fetch_down ''/admin/customers''
            no_options example_world)
       = Returned \<lparr>success = False, data = None, message = None,
                   error = Some ''Failed to fetch''\<rparr>"
proof -
  let ?base = "''https://drvyn-backend.vercel.app''"
  let ?ep = "''/admin/customers''"
  let ?r200 = "\<lparr>http_status = 200, text_body = Returned ''[1]'',
                 json_body = (Returned ''[1]'' :: string js_result)\<rparr>"
  let ?r500 = "\<lparr>http_status = 500, text_body = Returned ''Internal Server Error'',
                 json_body = (Threw (Error ''Unexpected token I in JSON at position 0'')
                                :: string js_result)\<rparr>"
  have a: "fetch_200 (?base @ ?ep) (fetch_init no_options (fst (getAuthToken example_world)))
             = Returned ?r200"
    by (simp add: fetch_200_def)
  have b: "response_ok ?r200" "json_body ?r200 = Returned ''[1]''"
    by (simp_all add: response_ok_def)
  have c: "fetch_500 (?base @ ?ep) (fetch_init no_options (fst (getAuthToken example_world)))
             = Returned ?r500"
    by (simp add: fetch_500_def)
  have d: "\<not> response_ok ?r500" "http_status ?r500 \<noteq> 401"
    "text_body ?r500 = Returned ''Internal Server Error''"
    by (simp_all add: response_ok_def)
  have e: "fetch_down (?base @ ?ep) (fetch_init no_options (fst (getAuthToken example_world)))
             = Threw (Error ''Failed to fetch'')"
    by (simp add: fetch_down_def)
  from apiRequest_never_throws
         [where base = ?base and fetch = fetch_200 and endpoint = ?ep and options = no_options
            and w = example_world and response = ?r200 and json = "''[1]''"] a b
  have 1: "fst (apiRequest ?base fetch_200 ?ep no_options example_world)
             = Returned \<lparr>success = True, data = Some ''[1]'', message = None, error = None\<rparr>"
    by blast
  from apiRequest_never_throws
         [where base = ?base and fetch = fetch_500 and endpoint = ?ep and options = no_options
            and w = example_world and response = ?r500
            and errorText = "''Internal Server Error''"] c d
  have "fst (apiRequest ?base fetch_500 ?ep no_options example_world)
             = Returned \<lparr>success = False, data = None, message = None,
                   error = Some (''HTTP error! status: '' @ Number_toString (int (http_status ?r500))
                                   @ '' - '' @ ''Internal Server Error'')\<rparr>"
    by blast
  then have 2: "fst (apiRequest ?base fetch_500 ?ep no_options example_world)
             = Returned \<lparr>success = False, data = None, message = None,
                   error = Some ''HTTP error! status: 500 - Internal Server Error''\<rparr>"
    by (simp add: Number_toString_500)
  from apiRequest_never_throws
         [where base = ?base and fetch = fetch_down and endpoint = ?ep and options = no_options
            and w = example_world and m = "''Failed to fetch''"] e
  have 3: "fst (apiRequest ?base fetch_down ?ep no_options example_world)
             = Returned \<lparr>success = False, data = None, message = None,
                   error = Some ''Failed to fetch''\<rparr>"
    by blast
  from a b(1) 1 2 3 show ?thesis by (intro conjI)
qed

section \<open>The 401 path\<close>

lemma getAuthToken_after_clear:
  "fst (getAuthToken (navigate_login (clearAuthToken w))) = None"
  by (cases "window w") (simp_all add: getAuthToken_def navigate_login_def clearAuthToken_def)

lemma apiRequest_401:
  assumes "fetch (base @ endpoint) (fetch_init options (fst (getAuthToken w))) = Returned response"
      and "http_status response = 401"
  shows "apiRequest base fetch endpoint options w =
           (Returned \<lparr>success = False, data = None, message = None,
                      error = Some ''Authentication failed''\<rparr>,
            navigate_login (clearAuthToken (snd (getAuthToken w))))"
  using assms
  by (cases "getAuthToken w") (simp add: apiRequest_def apiRequest_try_cases)

text \<open>
  Claim C4. When the response to a request has status 401, \<open>apiRequest\<close> reports the
  failure \<open>Authentication failed\<close>, and in the state it leaves behind the in-memory token
  is cleared, the \<open>authToken\<close> entry of \<open>localStorage\<close> is removed and the location is
  \<open>/login\<close> (where there is a browser), so that the next \<open>getAuthToken\<close> returns no token.
\<close>

theorem unauthorized_clears_token:
  fixes fetch :: "'a fetch"
  assumes "fetch (base @ endpoint) (fetch_init options (fst (getAuthToken w))) = Returned response"
      and "http_status response = 401"
  shows "fst (apiRequest base fetch endpoint options w) =
           Returned \<lparr>success = False, data = None, message = None,
                     error = Some ''Authentication failed''\<rparr>
       \<and> authToken (snd (apiRequest base fetch endpoint options w)) = None
       \<and> (case window (snd (apiRequest base fetch endpoint options w)) of
             None \<Rightarrow> True
           | Some b \<Rightarrow> localStorage b ''authToken'' = None \<and> location_href b = ''/login'')
       \<and> fst (getAuthToken (snd (apiRequest base fetch endpoint options w))) = None"
proof -
  let ?w1 = "snd (getAuthToken w)"
  have r: "apiRequest base fetch endpoint options w =
             (Returned \<lparr>success = False, data = None, message = None,
                        error = Some ''Authentication failed''\<rparr>,
              navigate_login (clearAuthToken ?w1))"
    using assms by (rule apiRequest_401)
  have "authToken (navigate_login (clearAuthToken ?w1)) = None"
    by (simp add: navigate_login_def clearAuthToken_def)
  moreover have "case window (navigate_login (clearAuthToken ?w1)) of
                   None \<Rightarrow> True
                 | Some b \<Rightarrow> localStorage b ''authToken'' = None \<and> location_href b = ''/login''"
    by (cases "window ?w1") (simp_all add: navigate_login_def clearAuthToken_def)
  moreover note getAuthToken_after_clear [of ?w1]
  ultimately show ?thesis
    by (simp add: r)
qed

theorem unauthorized_clears_token_witness:
  "fst (getAuthToken example_world) = Some ''secret''
   \<and> fetch_401 (''https://drvyn-backend.vercel.app'' @ ''/admin/bookings'')
         (fetch_init no_options (fst (getAuthToken example_world)))
       = Returned \<lparr>http_status = 401, text_body = Returned ''Unauthorized'',
                   json_body = Threw (Error ''Unexpected token U in JSON at position 0'')\<rparr>
   \<and> fst (apiRequest ''https://drvyn-backend.vercel.app'' fetch_401 ''/admin/bookings''
            no_options example_world)
       = Returned \<lparr>success = False, data = None, message = None,
                   error = Some ''Authentication failed''\<rparr>
   \<and> authToken (snd (apiRequest ''https://drvyn-backend.vercel.app'' fetch_401 ''/admin/bookings''
                       no_options example_world)) = None
   \<and> fst (getAuthToken (snd (apiRequest ''https://drvyn-backend.vercel.app'' fetch_401
                               ''/admin/bookings'' no_options example_world))) = None"
proof -
  let ?r = "\<lparr>http_status = 401, text_body = Returned ''Unauthorized'',
              json_body = (Threw (Error ''Unexpected token U in JSON at position 0'')
                             :: string js_result)\<rparr>"
  have t: "fst (getAuthToken example_world) = Some ''secret''"
    by (simp add: getAuthToken_def example_world_def)
  have a: "fetch_401 (''https://drvyn-backend.vercel.app'' @ ''/admin/bookings'')
             (fetch_init no_options (fst (getAuthToken example_world))) = Returned ?r"
    by (simp add: fetch_401_def)
  have b: "http_status ?r = 401" by simp
  from unauthorized_clears_token
         [where fetch = fetch_401 and base = "''https://drvyn-backend.vercel.app''"
            and endpoint = "''/admin/bookings''" and options = no_options
            and w = example_world and response = ?r] a b
  have "fst (apiRequest ''https://drvyn-backend.vercel.app'' fetch_401 ''/admin/bookings''
              no_options example_world)
          = Returned \<lparr>success = False, data = None, message = None,
                      error = Some ''Authentication failed''\<rparr>
      \<and> authToken (snd (apiRequest ''https://drvyn-backend.vercel.app'' fetch_401
                          ''/admin/bookings'' no_options example_world)) = None
      \<and> fst (getAuthToken (snd (apiRequest ''https://drvyn-backend.vercel.app'' fetch_401
                                  ''/admin/bookings'' no_options example_world))) = None"
    by blast
  with t a show ?thesis by (intro conjI) blast+
qed

section \<open>Query strings\<close>















section \<open>The dashboard page\<close>

lemma fetchDashboardData_resolved:
  "fetchDashboardData (Returned statsResponse) (Returned bookingsResponse)
       (Returned insuranceResponse) (Returned requestsResponse) initial_dashboard =
     \<lparr>d_stats = (if success statsResponse then data statsResponse else None),
      d_bookings = (case data bookingsResponse of
                      Some d \<Rightarrow> if success bookingsResponse then or_empty (bookings d) else []
                    | None \<Rightarrow> []),
      d_insuranceRequests = (case data insuranceResponse of
                      Some d \<Rightarrow> if success insuranceResponse then or_empty (requests d) else []
                    | None \<Rightarrow> []),
      d_generalRequests = (case data requestsResponse of
                      Some d \<Rightarrow> if success requestsResponse then or_empty (requests d) else []
                    | None \<Rightarrow> []),
      d_loading = False,
      d_error = (if success statsResponse then None
                 else Some ''Failed to load dashboard statistics'')\<rparr>"
  by (simp add: fetchDashboardData_def initial_dashboard_def Let_def split: option.splits)

lemma fetchDashboardData_rejected:
  assumes "\<not> (\<exists>a b c d. stats_r = Returned a \<and> bookings_r = Returned b
                 \<and> insurance_r = Returned c \<and> requests_r = Returned d)"
  shows "fetchDashboardData stats_r bookings_r insurance_r requests_r s =
           s\<lparr>d_loading := False, d_error := Some ''Failed to fetch dashboard data.''\<rparr>"
  using assms
  by (cases stats_r; cases bookings_r; cases insurance_r; cases requests_r)
     (simp_all add: fetchDashboardData_def Let_def)

lemma render_stats_failed:
  assumes "\<not> reports_success stats_r"
  shows "\<exists>msg. render getTime
                 (fetchDashboardData stats_r bookings_r insurance_r requests_r initial_dashboard)
               = ErrorView msg"
proof (cases "\<exists>a b c d. stats_r = Returned a \<and> bookings_r = Returned b
                 \<and> insurance_r = Returned c \<and> requests_r = Returned d")
  case True
  then obtain a b c d where r: "stats_r = Returned a" "bookings_r = Returned b"
    "insurance_r = Returned c" "requests_r = Returned d" by blast
  with assms have "\<not> success a" by (simp add: reports_success_def)
  then show ?thesis
    unfolding r fetchDashboardData_resolved by (simp add: render_def)
next
  case False
  then show ?thesis
    by (simp add: fetchDashboardData_rejected render_def initial_dashboard_def)
qed

lemma render_stats_failed_resolved:
  assumes "\<not> success statsResponse"
  shows "render getTime
           (fetchDashboardData (Returned statsResponse) (Returned bookingsResponse)
              (Returned insuranceResponse) (Returned requestsResponse) initial_dashboard)
         = ErrorView ''Failed to load dashboard statistics''"
  using assms unfolding fetchDashboardData_resolved by (simp add: render_def)

lemma render_stats_loaded:
  assumes "success statsResponse" and "data statsResponse = Some stats"
  shows "\<exists>page. render getTime
                  (fetchDashboardData (Returned statsResponse) (Returned bookingsResponse)
                     (Returned insuranceResponse) (Returned requestsResponse) initial_dashboard)
                = PageView page
              \<and> shown_stats page = stats
              \<and> (\<not> success bookingsResponse \<longrightarrow> shown_bookings page = [])
              \<and> (\<not> success insuranceResponse \<longrightarrow> shown_insuranceRequests page = [])
              \<and> (\<not> success requestsResponse \<longrightarrow> shown_generalRequests page = [])"
  using assms unfolding fetchDashboardData_resolved
  by (simp add: render_def page_of_def split: option.splits)

text \<open>
  Claim C8. Once the four requests of the dashboard have settled: if the stats request
  reports failure, the page renders the error view (with the message
  \<open>Failed to load dashboard statistics\<close> when all four promises resolved); if the stats
  request succeeded with data, the page renders its content with those stats, and each of
  the bookings, insurance and general-requests slices whose request failed is the empty list.
\<close>

theorem dashboard_partial_failure:
  "(\<not> reports_success stats_r \<longrightarrow>
      (\<exists>msg. render getTime
                (fetchDashboardData stats_r bookings_r insurance_r requests_r initial_dashboard)
              = ErrorView msg))
   \<and> (\<not> success statsResponse \<longrightarrow>
        render getTime
          (fetchDashboardData (Returned statsResponse) (Returned bookingsResponse)
             (Returned insuranceResponse) (Returned requestsResponse) initial_dashboard)
        = ErrorView ''Failed to load dashboard statistics'')
   \<and> (success statsResponse \<and> data statsResponse = Some stats \<longrightarrow>
        (\<exists>page. render getTime
                  (fetchDashboardData (Returned statsResponse) (Returned bookingsResponse)
                     (Returned insuranceResponse) (Returned requestsResponse) initial_dashboard)
                = PageView page
              \<and> shown_stats page = stats
              \<and> (\<not> success bookingsResponse \<longrightarrow> shown_bookings page = [])
              \<and> (\<not> success insuranceResponse \<longrightarrow> shown_insuranceRequests page = [])
              \<and> (\<not> success requestsResponse \<longrightarrow> shown_generalRequests page = [])))"
  using render_stats_failed [of stats_r getTime bookings_r insurance_r requests_r]
    render_stats_failed_resolved [of statsResponse getTime bookingsResponse insuranceResponse
      requestsResponse]
    render_stats_loaded [of statsResponse stats getTime bookingsResponse insuranceResponse
      requestsResponse]
  by blast

theorem dashboard_partial_failure_witness:
  "\<not> success (failed_response :: DashboardStats ApiResponse)
   \<and> render (\<lambda>s. 0)
        (fetchDashboardData (Returned failed_response) (Returned bookings_response)
           (Returned requests_response) (Returned requests_response) initial_dashboard)
      = ErrorView ''Failed to load dashboard statistics''
   \<and> success stats_response \<and> data stats_response = Some example_stats
   \<and> \<not> success (failed_response :: bookings_payload ApiResponse)
   \<and> (\<exists>page. render (\<lambda>s. 0)
                (fetchDashboardData (Returned stats_response) (Returned failed_response)
                   (Returned requests_response) (Returned requests_response) initial_dashboard)
              = PageView page
            \<and> shown_stats page = example_stats \<and> shown_bookings page = [])"
proof -
  have f: "\<not> success (failed_response :: DashboardStats ApiResponse)"
    "\<not> success (failed_response :: bookings_payload ApiResponse)"
    by (simp_all add: failed_response_def)
  have s: "success stats_response" "data stats_response = Some example_stats"
    by (simp_all add: stats_response_def)
  from dashboard_partial_failure
         [where statsResponse = "failed_response :: DashboardStats ApiResponse"
            and getTime = "\<lambda>s. 0" and bookingsResponse = bookings_response
            and insuranceResponse = requests_response and requestsResponse = requests_response]
       f(1)
  have 1: "render (\<lambda>s. 0)
        (fetchDashboardData (Returned failed_response) (Returned bookings_response)
           (Returned requests_response) (Returned requests_response) initial_dashboard)
      = ErrorView ''Failed to load dashboard statistics''"
    by blast
  from dashboard_partial_failure
         [where statsResponse = stats_response and stats = example_stats
            and getTime = "\<lambda>s. 0"
            and bookingsResponse = "failed_response :: bookings_payload ApiResponse"
            and insuranceResponse = requests_response and requestsResponse = requests_response]
       s f(2)
  have 2: "\<exists>page. render (\<lambda>s. 0)
                (fetchDashboardData (Returned stats_response) (Returned failed_response)
                   (Returned requests_response) (Returned requests_response) initial_dashboard)
              = PageView page
            \<and> shown_stats page = example_stats \<and> shown_bookings page = []"
    by blast
  from f s 1 2 show ?thesis by (intro conjI)
qed

section \<open>The recent-activity feed\<close>





section \<open>The filters\<close>












text \<open>
  Claim C6 fails as stated on the bookings table: with the status filter \<open>confirmed\<close>, the
  held booking of status \<open>pending\<close> is still among the rows shown.
\<close>

theorem bookings_status_filter_not_client_side:
  "st_statusFilter confirmed_filter_state = ''confirmed''
   \<and> status example_booking \<noteq> ''confirmed''
   \<and> example_booking \<in> set (bookings_filteredData confirmed_filter_state)"
  by (simp add: confirmed_filter_state_def example_booking_def bookings_filteredData_def Let_def)

text \<open>
  Claim C6, amended. In the insurance-requests and the general-requests table the status
  filter is applied to the held rows: with \<open>"all"\<close> the rows shown are those the free-text
  filter alone keeps (all held rows when that filter is empty), and with any other value
  they are exactly the rows of the \<open>"all"\<close> result whose status equals the value. The
  bookings table does not filter the held rows by status: the rows it shows do not depend
  on the status filter, which goes to the backend fetch instead (no filter for \<open>"all"\<close>),
  and a successful fetch replaces the held rows by the rows returned.
\<close>

theorem status_filter:
  "insurance_filteredData (si\<lparr>st_statusFilter := ''all'', st_globalFilter := []\<rparr>) = st_data si
   \<and> insurance_filteredData (si\<lparr>st_statusFilter := v\<rparr>) =
       filter (\<lambda>item. v = ''all'' \<or> status item = v)
         (insurance_filteredData (si\<lparr>st_statusFilter := ''all''\<rparr>))
   \<and> requests_filteredData (sr\<lparr>st_statusFilter := ''all'', st_globalFilter := []\<rparr>) = st_data sr
   \<and> requests_filteredData (sr\<lparr>st_statusFilter := v\<rparr>) =
       filter (\<lambda>item. v = ''all'' \<or> status item = v)
         (requests_filteredData (sr\<lparr>st_statusFilter := ''all''\<rparr>))
   \<and> bookings_filteredData (sb\<lparr>st_statusFilter := v\<rparr>) = bookings_filteredData sb
   \<and> bookings_fetch_arg (sb\<lparr>st_statusFilter := v\<rparr>) = (if v = ''all'' then None else Some v)
   \<and> st_data (bookings_fetchData getAll (sb\<lparr>st_statusFilter := v\<rparr>)) =
       (case getAll (if v = ''all'' then None else Some v) of
          Returned response \<Rightarrow>
            (case data response of
               Some bs \<Rightarrow> if success response then bs else st_data sb
             | None \<Rightarrow> st_data sb)
        | Threw e \<Rightarrow> st_data sb)"
proof -
  have 1: "insurance_filteredData (si\<lparr>st_statusFilter := ''all'', st_globalFilter := []\<rparr>)
             = st_data si"
    by (simp add: insurance_filteredData_def Let_def)
  have 2: "insurance_filteredData (si\<lparr>st_statusFilter := v\<rparr>) =
             filter (\<lambda>item. v = ''all'' \<or> status item = v)
               (insurance_filteredData (si\<lparr>st_statusFilter := ''all''\<rparr>))"
    by (auto simp add: insurance_filteredData_def Let_def intro: filter_cong)
  have 3: "requests_filteredData (sr\<lparr>st_statusFilter := ''all'', st_globalFilter := []\<rparr>)
             = st_data sr"
    by (simp add: requests_filteredData_def Let_def)
  have 4: "requests_filteredData (sr\<lparr>st_statusFilter := v\<rparr>) =
             filter (\<lambda>item. v = ''all'' \<or> status item = v)
               (requests_filteredData (sr\<lparr>st_statusFilter := ''all''\<rparr>))"
    by (auto simp add: requests_filteredData_def Let_def intro: filter_cong)
  have 5: "bookings_filteredData (sb\<lparr>st_statusFilter := v\<rparr>) = bookings_filteredData sb"
    by (simp add: bookings_filteredData_def Let_def)
  have 6: "bookings_fetch_arg (sb\<lparr>st_statusFilter := v\<rparr>) = (if v = ''all'' then None else Some v)"
    by (simp add: bookings_fetch_arg_def)
  have 7: "st_data (bookings_fetchData getAll (sb\<lparr>st_statusFilter := v\<rparr>)) =
       (case getAll (if v = ''all'' then None else Some v) of
          Returned response \<Rightarrow>
            (case data response of
               Some bs \<Rightarrow> if success response then bs else st_data sb
             | None \<Rightarrow> st_data sb)
        | Threw e \<Rightarrow> st_data sb)"
    by (simp add: bookings_fetchData_def bookings_fetch_arg_def
          split: js_result.splits option.splits)
  from 1 2 3 4 5 6 7 show ?thesis by (intro conjI)
qed

end
